theory Spec2Isabelle
  imports Main
begin

section \<open>Python values used by \<^verbatim>\<open>main.py\<close>\<close>

text \<open>
  A Python \<^verbatim>\<open>str\<close> is a sequence of Unicode code points, so it is modelled as a list of
  natural numbers. \<open>lit\<close> turns an ASCII literal of the source into that representation.
\<close>

type_synonym pystr = "nat list"

definition lit :: "string \<Rightarrow> pystr" where
  "lit s = map of_char s"

text \<open>
  \<^verbatim>\<open>str.strip()\<close> without an argument removes the leading and the trailing code points for
  which \<^verbatim>\<open>str.isspace\<close> holds. The set below is the one of CPython's Unicode database:
  U+0009..U+000D, U+001C..U+0020, U+0085, U+00A0, U+1680, U+2000..U+200A, U+2028, U+2029,
  U+202F, U+205F and U+3000.
\<close>

definition isspace :: "nat \<Rightarrow> bool" where
  "isspace c \<longleftrightarrow>
     (9 \<le> c \<and> c \<le> 13) \<or> (28 \<le> c \<and> c \<le> 32) \<or> c = 133 \<or> c = 160 \<or> c = 5760 \<or>
     (8192 \<le> c \<and> c \<le> 8202) \<or> c = 8232 \<or> c = 8233 \<or> c = 8239 \<or> c = 8287 \<or> c = 12288"

definition strip :: "pystr \<Rightarrow> pystr" where
  "strip s = rev (dropWhile isspace (rev (dropWhile isspace s)))"

text \<open>
  Truth value of an \<^verbatim>\<open>Optional[str]\<close>, as \<^verbatim>\<open>not GENAI_API_KEY\<close> tests it: \<^verbatim>\<open>None\<close> and
  the empty string are false, every other string is true.
\<close>

fun truthy :: "pystr option \<Rightarrow> bool" where
  "truthy None = False"
| "truthy (Some s) = (s \<noteq> [])"

section \<open>Exceptions\<close>

text \<open>
  The exception classes the module distinguishes. \<^verbatim>\<open>genai.types.RateLimitError\<close> and
  \<^verbatim>\<open>genai.types.RequestError\<close> are named by the \<^verbatim>\<open>except\<close> clauses and taken as two
  unrelated classes of the provider library; \<open>OtherException\<close> stands for every other
  subclass of \<^verbatim>\<open>Exception\<close>. Each provider exception carries the text \<^verbatim>\<open>str(e)\<close> gives for it.
  \<open>HTTPException\<close> is the framework's exception with its \<^verbatim>\<open>status_code\<close> and \<^verbatim>\<open>detail\<close>; it is
  a subclass of \<^verbatim>\<open>Exception\<close> too. Exceptions outside \<^verbatim>\<open>Exception\<close> (\<^verbatim>\<open>KeyboardInterrupt\<close>,
  \<^verbatim>\<open>SystemExit\<close>) are not part of the model.
\<close>

datatype exn =
    ValueError pystr
  | RateLimitError pystr
  | RequestError pystr
  | HTTPException nat pystr
  | OtherException pystr

text \<open>
  \<^verbatim>\<open>str(e)\<close>. What \<^verbatim>\<open>str\<close> returns for an \<^verbatim>\<open>HTTPException\<close> is decided by the installed
  framework version, so it is a parameter \<open>http_str\<close> of the handlers.
\<close>

fun str_exn :: "(nat \<Rightarrow> pystr \<Rightarrow> pystr) \<Rightarrow> exn \<Rightarrow> pystr" where
  "str_exn http_str (ValueError m) = m"
| "str_exn http_str (RateLimitError m) = m"
| "str_exn http_str (RequestError m) = m"
| "str_exn http_str (HTTPException status detail) = http_str status detail"
| "str_exn http_str (OtherException m) = m"

text \<open>
  The \<^verbatim>\<open>__str__\<close> of current Starlette releases, \<^verbatim>\<open>f"{self.status_code}: {self.detail}"\<close>,
  as one possible value of that parameter.
\<close>

fun decimal :: "nat \<Rightarrow> pystr" where
  "decimal n = (if n < 10 then [48 + n] else decimal (n div 10) @ [48 + n mod 10])"

declare decimal.simps [simp del]

definition starlette_str :: "nat \<Rightarrow> pystr \<Rightarrow> pystr" where
  "starlette_str status detail = decimal status @ lit '': '' @ detail"

section \<open>Module start-up\<close>

text \<open>
  The module-level state that the handlers read: the credential and the list of model
  names fetched once at import time.
\<close>

record module_state =
  GENAI_API_KEY :: "pystr option"
  available_models :: "pystr list"

text \<open>
  Import of the module. \<open>getenv_key\<close> is the result of \<^verbatim>\<open>os.getenv("GENAI_API_KEY")\<close> after
  \<^verbatim>\<open>load_dotenv()\<close>; \<open>list_models\<close> is the outcome of listing the provider's models and
  collecting their names, whose failure the module catches and replaces by the empty list.
  The message of the \<^verbatim>\<open>ValueError\<close> starts with the code point U+274C.
\<close>

definition startup :: "pystr option \<Rightarrow> exn + pystr list \<Rightarrow> exn + module_state" where
  "startup getenv_key list_models =
     (if \<not> truthy getenv_key
      then Inl (ValueError ([10060] @
        lit '' Google Gemini API key is missing! Set GENAI_API_KEY in .env or environment variables.''))
      else Inr \<lparr>GENAI_API_KEY = getenv_key,
                available_models = (case list_models of Inr names \<Rightarrow> names | Inl e \<Rightarrow> [])\<rparr>)"

section \<open>The request handlers\<close>

text \<open>
  The provider is the composite of building the model object, \<^verbatim>\<open>generate_content\<close> and
  reading \<^verbatim>\<open>response.text\<close>: given the model name and the prompt it yields the text or
  raises. A handler returns what it returns or raises, together with the log of provider
  calls it made (model name and prompt).
\<close>

type_synonym provider = "pystr \<Rightarrow> pystr \<Rightarrow> exn + pystr"
type_synonym call = "pystr \<times> pystr"
type_synonym outcome = "(exn + (pystr \<rightharpoonup> pystr)) \<times> call list"

definition model_name :: pystr where
  "model_name = lit ''models/gemini-1.5-flash''"

subsection \<open>\<^verbatim>\<open>generate_question\<close>\<close>

text \<open>The prompt, \<^verbatim>\<open>f"Generate a {topic} learning question."\<close>.\<close>

definition generate_question_prompt :: "pystr \<Rightarrow> pystr" where
  "generate_question_prompt topic = lit ''Generate a '' @ topic @ lit '' learning question.''"

text \<open>The body of the \<^verbatim>\<open>try\<close> block.\<close>

definition generate_question_try :: "module_state \<Rightarrow> provider \<Rightarrow> pystr \<Rightarrow> outcome" where
  "generate_question_try st generate_content topic =
     (if model_name \<notin> set (available_models st)
      then (Inl (HTTPException 400
              (lit ''Model '' @ model_name @ lit '' not found. Check your API access.'')), [])
      else
        (case generate_content model_name (generate_question_prompt topic) of
           Inl e \<Rightarrow> (Inl e, [(model_name, generate_question_prompt topic)])
         | Inr text \<Rightarrow>
             (Inr [lit ''question'' \<mapsto> strip text],
              [(model_name, generate_question_prompt topic)])))"

text \<open>The \<^verbatim>\<open>except\<close> clauses, tried in the order of the source.\<close>

fun generate_question_except :: "(nat \<Rightarrow> pystr \<Rightarrow> pystr) \<Rightarrow> exn \<Rightarrow> exn" where
  "generate_question_except http_str (RateLimitError m) =
     HTTPException 429 (lit ''Quota exceeded. Please try again later.'')"
| "generate_question_except http_str (RequestError m) =
     HTTPException 400 (lit ''Invalid request: '' @ m)"
| "generate_question_except http_str e =
     HTTPException 500 (lit ''Unexpected error: '' @ str_exn http_str e)"

definition generate_question ::
  "module_state \<Rightarrow> provider \<Rightarrow> (nat \<Rightarrow> pystr \<Rightarrow> pystr) \<Rightarrow> pystr \<Rightarrow> outcome" where
  "generate_question st generate_content http_str topic =
     (if \<not> truthy (GENAI_API_KEY st)
      then (Inl (HTTPException 500 (lit ''Google Gemini API key is missing!'')), [])
      else
        (case generate_question_try st generate_content topic of
           (Inl e, calls) \<Rightarrow> (Inl (generate_question_except http_str e), calls)
         | (Inr body, calls) \<Rightarrow> (Inr body, calls)))"

subsection \<open>\<^verbatim>\<open>evaluate_answer\<close>\<close>

record AnswerRequest =
  question :: pystr
  answer :: pystr

text \<open>
  The prompt: three adjacent string literals, the first two of them f-strings ending in a
  line feed (code point 10).
\<close>

definition evaluate_answer_prompt :: "AnswerRequest \<Rightarrow> pystr" where
  "evaluate_answer_prompt request =
     lit ''Here is a learning question: '' @ question request @ [10] @
     lit ''The user's answer: '' @ answer request @ [10] @
     lit ''Evaluate the correctness of this answer. If incorrect, provide a helpful hint or explanation.''"

definition evaluate_answer_try :: "module_state \<Rightarrow> provider \<Rightarrow> AnswerRequest \<Rightarrow> outcome" where
  "evaluate_answer_try st generate_content request =
     (if model_name \<notin> set (available_models st)
      then (Inl (HTTPException 400
              (lit ''Model '' @ model_name @ lit '' not found. Check your API access.'')), [])
      else
        let prompt = evaluate_answer_prompt request in
        (case generate_content model_name prompt of
           Inl e \<Rightarrow> (Inl e, [(model_name, prompt)])
         | Inr text \<Rightarrow> (Inr [lit ''feedback'' \<mapsto> strip text], [(model_name, prompt)])))"

fun evaluate_answer_except :: "(nat \<Rightarrow> pystr \<Rightarrow> pystr) \<Rightarrow> exn \<Rightarrow> exn" where
  "evaluate_answer_except http_str (RateLimitError m) =
     HTTPException 429 (lit ''Quota exceeded. Try again later.'')"
| "evaluate_answer_except http_str (RequestError m) =
     HTTPException 400 (lit ''Invalid request: '' @ m)"
| "evaluate_answer_except http_str e =
     HTTPException 500 (lit ''Unexpected error: '' @ str_exn http_str e)"

definition evaluate_answer ::
  "module_state \<Rightarrow> provider \<Rightarrow> (nat \<Rightarrow> pystr \<Rightarrow> pystr) \<Rightarrow> AnswerRequest \<Rightarrow> outcome" where
  "evaluate_answer st generate_content http_str request =
     (if \<not> truthy (GENAI_API_KEY st)
      then (Inl (HTTPException 500 (lit ''Google Gemini API key is missing!'')), [])
      else
        (case evaluate_answer_try st generate_content request of
           (Inl e, calls) \<Rightarrow> (Inl (evaluate_answer_except http_str e), calls)
         | (Inr body, calls) \<Rightarrow> (Inr body, calls)))"

section \<open>The HTTP surface\<close>

text \<open>
  What the framework makes of a handler's outcome: a returned dictionary is the JSON body
  of a 200 response; a raised \<^verbatim>\<open>HTTPException\<close> becomes a response with its status code
  and the body \<^verbatim>\<open>{"detail": detail}\<close>; any other exception would reach the server's
  error middleware, which answers 500 with a plain text.
\<close>

datatype content =
    Object "pystr \<rightharpoonup> pystr"
  | ValidationErrors "pystr list"
  | PlainText pystr

datatype response = Response (status_code: nat) (content: content)

fun respond :: "exn + (pystr \<rightharpoonup> pystr) \<Rightarrow> response" where
  "respond (Inr body) = Response 200 (Object body)"
| "respond (Inl (HTTPException status detail)) =
     Response status (Object [lit ''detail'' \<mapsto> detail])"
| "respond (Inl e) = Response 500 (PlainText (lit ''Internal Server Error''))"

text \<open>
  \<^verbatim>\<open>GET /generate_question\<close>: the query parameter \<^verbatim>\<open>topic\<close> is optional and the
  handler's signature gives it the default \<^verbatim>\<open>"math"\<close>.
\<close>

definition GET_generate_question ::
  "module_state \<Rightarrow> provider \<Rightarrow> (nat \<Rightarrow> pystr \<Rightarrow> pystr) \<Rightarrow> pystr option \<Rightarrow> response \<times> call list" where
  "GET_generate_question st generate_content http_str topic_param =
     (let r = generate_question st generate_content http_str
                (case topic_param of None \<Rightarrow> lit ''math'' | Some topic \<Rightarrow> topic)
      in (respond (fst r), snd r))"

text \<open>A decoded JSON value of a request body; arrays and objects are not told apart.\<close>

datatype json = JString pystr | JNumber int | JBool bool | JNull | JNested

text \<open>
  Modelled from the spec: the schema validation of the request body, which the web
  framework performs from the declaration of \<^verbatim>\<open>AnswerRequest\<close> (two fields without
  defaults, both annotated \<^verbatim>\<open>str\<close>) and whose code is not part of \<^verbatim>\<open>main.py\<close>. Following
  the spec, both fields are required strings; the result names the offending fields.
\<close>

definition AnswerRequest_validate :: "(pystr \<rightharpoonup> json) \<Rightarrow> pystr list + AnswerRequest" where
  "AnswerRequest_validate body =
     (case (body (lit ''question''), body (lit ''answer'')) of
        (Some (JString q), Some (JString a)) \<Rightarrow> Inr \<lparr>question = q, answer = a\<rparr>
      | _ \<Rightarrow>
          Inl (filter (\<lambda>field. case body field of Some (JString v) \<Rightarrow> False | _ \<Rightarrow> True)
                 [lit ''question'', lit ''answer'']))"

text \<open>
  Modelled from the spec: \<^verbatim>\<open>POST /evaluate_answer\<close> as the router serves it. A body that
  fails validation is answered 422 with the validation errors before the handler runs;
  otherwise the handler is called with the validated request.
\<close>

definition POST_evaluate_answer ::
  "module_state \<Rightarrow> provider \<Rightarrow> (nat \<Rightarrow> pystr \<Rightarrow> pystr) \<Rightarrow> (pystr \<rightharpoonup> json) \<Rightarrow> response \<times> call list" where
  "POST_evaluate_answer st generate_content http_str body =
     (case AnswerRequest_validate body of
        Inl errors \<Rightarrow> (Response 422 (ValidationErrors errors), [])
      | Inr request \<Rightarrow>
          (let r = evaluate_answer st generate_content http_str request
           in (respond (fst r), snd r)))"

subsection \<open>Fixed inputs for the concrete instances\<close>

text \<open>A provider that answers every call with the same outcome, as a test double would.\<close>

definition stub_provider :: "exn + pystr \<Rightarrow> provider" where
  "stub_provider result model prompt = result"

text \<open>A state as start-up leaves it when the provider lists the model, and one where it does not.\<close>

definition listed_state :: module_state where
  "listed_state = \<lparr>GENAI_API_KEY = Some (lit ''key''), available_models = [model_name]\<rparr>"

definition unlisted_state :: module_state where
  "unlisted_state = \<lparr>GENAI_API_KEY = Some (lit ''key''), available_models = []\<rparr>"

section \<open>Properties of the string operations\<close>

text \<open>
  \<open>strip\<close> cuts a string into a whitespace prefix, the result and a whitespace suffix; the
  result, when it is not empty, neither starts nor ends with whitespace.
\<close>

lemma strip_decomp:
  "s = takeWhile isspace s @ strip s @ rev (takeWhile isspace (rev (dropWhile isspace s)))"
proof -
  let ?t = "dropWhile isspace s"
  have "rev ?t = takeWhile isspace (rev ?t) @ dropWhile isspace (rev ?t)"
    by simp
  then have "?t = rev (dropWhile isspace (rev ?t)) @ rev (takeWhile isspace (rev ?t))"
    by (metis rev_append rev_rev_ident)
  then have "?t = strip s @ rev (takeWhile isspace (rev ?t))"
    by (simp add: strip_def)
  moreover have "s = takeWhile isspace s @ ?t"
    by simp
  ultimately show ?thesis
    by metis
qed

lemma strip_last: "strip s \<noteq> [] \<Longrightarrow> \<not> isspace (last (strip s))"
proof -
  assume ne: "strip s \<noteq> []"
  let ?u = "dropWhile isspace (rev (dropWhile isspace s))"
  from ne have "?u \<noteq> []"
    by (simp add: strip_def)
  then have "\<not> isspace (hd ?u)"
    by (rule hd_dropWhile)
  moreover have "last (strip s) = hd ?u"
    by (simp add: strip_def last_rev)
  ultimately show ?thesis
    by simp
qed

lemma strip_hd: "strip s \<noteq> [] \<Longrightarrow> \<not> isspace (hd (strip s))"
proof -
  assume ne: "strip s \<noteq> []"
  let ?t = "dropWhile isspace s"
  have "?t = strip s @ rev (takeWhile isspace (rev ?t))"
    using strip_decomp [of s] by (metis same_append_eq takeWhile_dropWhile_id)
  with ne have "hd ?t = hd (strip s)" and "?t \<noteq> []"
    by (metis hd_append2, metis append_is_Nil_conv)
  then show ?thesis
    using hd_dropWhile [of isspace s] by simp
qed

lemma strip_eq_Nil_iff: "strip s = [] \<longleftrightarrow> (\<forall>c \<in> set s. isspace c)"
proof
  assume "strip s = []"
  then have "s = takeWhile isspace s @ rev (takeWhile isspace (rev (dropWhile isspace s)))"
    using strip_decomp [of s] by simp
  then have "set s \<subseteq> set (takeWhile isspace s) \<union> set (takeWhile isspace (rev (dropWhile isspace s)))"
    by (metis set_append set_rev subset_refl)
  then show "\<forall>c \<in> set s. isspace c"
    by (auto dest: set_takeWhileD)
next
  assume "\<forall>c \<in> set s. isspace c"
  then have "dropWhile isspace s = []"
    by (induction s) simp_all
  then show "strip s = []"
    by (simp only: strip_def dropWhile.simps rev.simps)
qed

lemma strip_surrounding:
  "\<exists>pre suf. s = pre @ strip s @ suf \<and> (\<forall>c \<in> set pre. isspace c) \<and> (\<forall>c \<in> set suf. isspace c)"
proof -
  let ?pre = "takeWhile isspace s"
  let ?suf = "rev (takeWhile isspace (rev (dropWhile isspace s)))"
  have "s = ?pre @ strip s @ ?suf"
    by (rule strip_decomp)
  moreover have "\<forall>c \<in> set ?pre. isspace c"
    by (auto dest: set_takeWhileD)
  moreover have "\<forall>c \<in> set ?suf. isspace c"
    by (auto dest: set_takeWhileD)
  ultimately show ?thesis
    by blast
qed

section \<open>The handlers, branch by branch\<close>

text \<open>
  With a credential present, a handler's outcome is decided by whether the model name is
  in the start-up list and, if it is, by the outcome of the single provider call.
\<close>

lemma generate_question_listed:
  assumes "truthy (GENAI_API_KEY st)" and "model_name \<in> set (available_models st)"
  shows "generate_question st gen hs topic =
    (case gen model_name (generate_question_prompt topic) of
       Inl e \<Rightarrow> (Inl (generate_question_except hs e), [(model_name, generate_question_prompt topic)])
     | Inr text \<Rightarrow> (Inr [lit ''question'' \<mapsto> strip text], [(model_name, generate_question_prompt topic)]))"
  using assms by (simp add: generate_question_def generate_question_try_def split: sum.splits)

lemma evaluate_answer_listed:
  assumes "truthy (GENAI_API_KEY st)" and "model_name \<in> set (available_models st)"
  shows "evaluate_answer st gen hs request =
    (case gen model_name (evaluate_answer_prompt request) of
       Inl e \<Rightarrow> (Inl (evaluate_answer_except hs e), [(model_name, evaluate_answer_prompt request)])
     | Inr text \<Rightarrow> (Inr [lit ''feedback'' \<mapsto> strip text], [(model_name, evaluate_answer_prompt request)]))"
  using assms by (simp add: evaluate_answer_def evaluate_answer_try_def split: sum.splits)

lemma generate_question_unlisted:
  assumes "truthy (GENAI_API_KEY st)" and "model_name \<notin> set (available_models st)"
  shows "generate_question st gen hs topic =
    (Inl (HTTPException 500 (lit ''Unexpected error: '' @
        hs 400 (lit ''Model '' @ model_name @ lit '' not found. Check your API access.''))), [])"
  using assms by (simp add: generate_question_def generate_question_try_def)

lemma evaluate_answer_unlisted:
  assumes "truthy (GENAI_API_KEY st)" and "model_name \<notin> set (available_models st)"
  shows "evaluate_answer st gen hs request =
    (Inl (HTTPException 500 (lit ''Unexpected error: '' @
        hs 400 (lit ''Model '' @ model_name @ lit '' not found. Check your API access.''))), [])"
  using assms by (simp add: evaluate_answer_def evaluate_answer_try_def)

lemma decimal_400: "decimal 400 = [52, 48, 48]"
  by code_simp

lemma truthy_unlisted: "truthy (GENAI_API_KEY unlisted_state)"
  by (simp add: unlisted_state_def lit_def)

lemma truthy_listed: "truthy (GENAI_API_KEY listed_state)"
  by (simp add: listed_state_def lit_def)

lemma model_listed: "model_name \<in> set (available_models listed_state)"
  by (simp add: listed_state_def)

lemma model_unlisted: "model_name \<notin> set (available_models unlisted_state)"
  by (simp add: unlisted_state_def)

section \<open>The model-availability check\<close>

text \<open>
  C1. The claim is that a request served while \<^verbatim>\<open>"models/gemini-1.5-flash"\<close> is missing from
  the start-up list is answered 400 with the "model not found" detail, without a provider
  call. The handlers raise that \<^verbatim>\<open>HTTPException(400)\<close> inside their \<^verbatim>\<open>try\<close> block, where the
  final \<^verbatim>\<open>except Exception\<close> clause catches it and raises a 500 in its place. Evaluated at
  the empty model list, both endpoints answer 500 with the detail
  \<^verbatim>\<open>"Unexpected error: "\<close> followed by the text of the caught exception.
\<close>

theorem model_not_listed_answers_500:
  "respond (fst (generate_question unlisted_state (stub_provider (Inr (lit ''What is 2+2?'')))
       starlette_str (lit ''math''))) =
     Response 500 (Object [lit ''detail'' \<mapsto>
       lit ''Unexpected error: 400: Model models/gemini-1.5-flash not found. Check your API access.''])
   \<and> respond (fst (evaluate_answer unlisted_state (stub_provider (Inr (lit ''Correct.'')))
       starlette_str \<lparr>question = lit ''2+2?'', answer = lit ''4''\<rparr>)) =
     Response 500 (Object [lit ''detail'' \<mapsto>
       lit ''Unexpected error: 400: Model models/gemini-1.5-flash not found. Check your API access.''])
   \<and> snd (generate_question unlisted_state (stub_provider (Inr (lit ''What is 2+2?'')))
       starlette_str (lit ''math'')) = []
   \<and> snd (evaluate_answer unlisted_state (stub_provider (Inr (lit ''Correct.'')))
       starlette_str \<lparr>question = lit ''2+2?'', answer = lit ''4''\<rparr>) = []"
proof -
  note g = generate_question_unlisted [OF truthy_unlisted model_unlisted]
  note e = evaluate_answer_unlisted [OF truthy_unlisted model_unlisted]
  show ?thesis
    unfolding g e by (simp add: starlette_str_def decimal_400 model_name_def lit_def)
qed

section \<open>The question returned on success\<close>

text \<open>
  C2, as stated. The claim is that on provider success the body maps \<^verbatim>\<open>"question"\<close> to a
  non-empty string without leading or trailing whitespace. The handler strips whatever
  text the provider returns and has no check for emptiness: for a provider text of two
  spaces the question is the empty string.
\<close>

theorem blank_text_gives_empty_question:
  "respond (fst (generate_question listed_state (stub_provider (Inr (lit ''  '')))
       starlette_str (lit ''math''))) =
     Response 200 (Object [lit ''question'' \<mapsto> []])"
proof -
  note g = generate_question_listed [OF truthy_listed model_listed]
  show ?thesis
    unfolding g by (simp add: stub_provider_def strip_def isspace_def lit_def)
qed

text \<open>
  C2, amended. With a credential, the model listed and a successful provider call,
  \<^verbatim>\<open>generate_question\<close> answers 200 with \<^verbatim>\<open>"question"\<close> mapped to the stripped provider text.
  That string has no leading and no trailing whitespace, and it is non-empty exactly when
  the provider text contains a code point that is not whitespace.
\<close>

theorem generate_question_success_trimmed:
  assumes "truthy (GENAI_API_KEY st)"
    and "model_name \<in> set (available_models st)"
    and "gen model_name (generate_question_prompt topic) = Inr reply"
  shows "respond (fst (generate_question st gen hs topic)) =
           Response 200 (Object [lit ''question'' \<mapsto> strip reply])
         \<and> (strip reply = [] \<or> (\<not> isspace (hd (strip reply)) \<and> \<not> isspace (last (strip reply))))
         \<and> ((strip reply \<noteq> []) = (\<exists>c \<in> set reply. \<not> isspace c))"
proof -
  note g = generate_question_listed [OF assms(1) assms(2)]
  have "respond (fst (generate_question st gen hs topic)) =
          Response 200 (Object [lit ''question'' \<mapsto> strip reply])"
    using assms(3) by (simp add: g)
  moreover have "strip reply = [] \<or> (\<not> isspace (hd (strip reply)) \<and> \<not> isspace (last (strip reply)))"
    using strip_hd [of reply] strip_last [of reply] by blast
  moreover have "(strip reply \<noteq> []) = (\<exists>c \<in> set reply. \<not> isspace c)"
    using strip_eq_Nil_iff [of reply] by blast
  ultimately show ?thesis
    by blast
qed

lemma strip_example: "strip (lit ''  What is 7 * 8? '') = lit ''What is 7 * 8?''"
  by (simp add: strip_def isspace_def lit_def)

text \<open>
  C2, amended, at a concrete input: the provider text \<^verbatim>\<open>"  What is 7 * 8? "\<close> for the
  topic \<^verbatim>\<open>"math"\<close>.
\<close>

theorem generate_question_success_trimmed_witness:
  "truthy (GENAI_API_KEY listed_state)
   \<and> model_name \<in> set (available_models listed_state)
   \<and> stub_provider (Inr (lit ''  What is 7 * 8? '')) model_name (generate_question_prompt (lit ''math''))
       = Inr (lit ''  What is 7 * 8? '')
   \<and> respond (fst (generate_question listed_state (stub_provider (Inr (lit ''  What is 7 * 8? '')))
        starlette_str (lit ''math''))) =
      Response 200 (Object [lit ''question'' \<mapsto> lit ''What is 7 * 8?''])
   \<and> lit ''What is 7 * 8?'' \<noteq> []"
proof -
  have p: "stub_provider (Inr (lit ''  What is 7 * 8? '')) model_name (generate_question_prompt (lit ''math''))
       = Inr (lit ''  What is 7 * 8? '')"
    by (simp add: stub_provider_def)
  have ne: "strip (lit ''  What is 7 * 8? '') \<noteq> []"
    by (simp add: strip_example) (simp add: lit_def)
  note t = generate_question_success_trimmed
    [where st = listed_state and gen = "stub_provider (Inr (lit ''  What is 7 * 8? ''))"
       and topic = "lit ''math''" and reply = "lit ''  What is 7 * 8? ''" and hs = starlette_str]
  from t [OF truthy_listed model_listed p] ne
  show ?thesis
    using truthy_listed model_listed p by (simp add: strip_example)
qed

section \<open>Provider failures\<close>

text \<open>
  C3. If the provider call raises the rate-limit exception, either endpoint answers 429
  with a quota-exceeded detail: \<^verbatim>\<open>"Quota exceeded. Please try again later."\<close> from
  \<^verbatim>\<open>generate_question\<close> and \<^verbatim>\<open>"Quota exceeded. Try again later."\<close> from \<^verbatim>\<open>evaluate_answer\<close>.
  The provider is called only with a credential present and the model listed.
\<close>

theorem rate_limit_answers_429:
  assumes "truthy (GENAI_API_KEY st)"
    and "model_name \<in> set (available_models st)"
  shows "(gen model_name (generate_question_prompt topic) = Inl (RateLimitError m) \<longrightarrow>
            respond (fst (generate_question st gen hs topic)) =
              Response 429 (Object [lit ''detail'' \<mapsto> lit ''Quota exceeded. Please try again later.'']))
       \<and> (gen model_name (evaluate_answer_prompt request) = Inl (RateLimitError m) \<longrightarrow>
            respond (fst (evaluate_answer st gen hs request)) =
              Response 429 (Object [lit ''detail'' \<mapsto> lit ''Quota exceeded. Try again later.'']))"
proof -
  note g = generate_question_listed [OF assms]
  note e = evaluate_answer_listed [OF assms]
  show ?thesis
    by (simp add: g e)
qed

text \<open>
  C3 at a concrete input: a provider that always raises the rate-limit exception.
\<close>

theorem rate_limit_answers_429_witness:
  "truthy (GENAI_API_KEY listed_state)
   \<and> model_name \<in> set (available_models listed_state)
   \<and> respond (fst (generate_question listed_state
         (stub_provider (Inl (RateLimitError (lit ''429 Resource has been exhausted''))))
         starlette_str (lit ''math''))) =
       Response 429 (Object [lit ''detail'' \<mapsto> lit ''Quota exceeded. Please try again later.''])
   \<and> respond (fst (evaluate_answer listed_state
         (stub_provider (Inl (RateLimitError (lit ''429 Resource has been exhausted''))))
         starlette_str \<lparr>question = lit ''2+2?'', answer = lit ''5''\<rparr>)) =
       Response 429 (Object [lit ''detail'' \<mapsto> lit ''Quota exceeded. Try again later.''])"
proof -
  note t = rate_limit_answers_429
    [where st = listed_state
       and gen = "stub_provider (Inl (RateLimitError (lit ''429 Resource has been exhausted'')))"
       and m = "lit ''429 Resource has been exhausted''" and hs = starlette_str
       and topic = "lit ''math''" and request = "\<lparr>question = lit ''2+2?'', answer = lit ''5''\<rparr>"]
  from t [OF truthy_listed model_listed] show ?thesis
    using truthy_listed model_listed by (simp add: stub_provider_def)
qed

text \<open>
  C4. If the provider call raises the invalid-request exception, either endpoint answers
  400 and the detail is \<^verbatim>\<open>"Invalid request: "\<close> followed by the text of that exception.
\<close>

theorem invalid_request_answers_400:
  assumes "truthy (GENAI_API_KEY st)"
    and "model_name \<in> set (available_models st)"
  shows "(gen model_name (generate_question_prompt topic) = Inl (RequestError m) \<longrightarrow>
            respond (fst (generate_question st gen hs topic)) =
              Response 400 (Object [lit ''detail'' \<mapsto> lit ''Invalid request: '' @ m]))
       \<and> (gen model_name (evaluate_answer_prompt request) = Inl (RequestError m) \<longrightarrow>
            respond (fst (evaluate_answer st gen hs request)) =
              Response 400 (Object [lit ''detail'' \<mapsto> lit ''Invalid request: '' @ m]))"
proof -
  note g = generate_question_listed [OF assms]
  note e = evaluate_answer_listed [OF assms]
  show ?thesis
    by (simp add: g e)
qed

text \<open>
  C4 at a concrete input: a provider that always raises the invalid-request exception
  with the text \<^verbatim>\<open>"prompt too long"\<close>.
\<close>

theorem invalid_request_answers_400_witness:
  "truthy (GENAI_API_KEY listed_state)
   \<and> model_name \<in> set (available_models listed_state)
   \<and> respond (fst (generate_question listed_state
         (stub_provider (Inl (RequestError (lit ''prompt too long''))))
         starlette_str (lit ''math''))) =
       Response 400 (Object [lit ''detail'' \<mapsto> lit ''Invalid request: prompt too long''])
   \<and> respond (fst (evaluate_answer listed_state
         (stub_provider (Inl (RequestError (lit ''prompt too long''))))
         starlette_str \<lparr>question = lit ''2+2?'', answer = lit ''5''\<rparr>)) =
       Response 400 (Object [lit ''detail'' \<mapsto> lit ''Invalid request: prompt too long''])"
proof -
  note t = invalid_request_answers_400
    [where st = listed_state
       and gen = "stub_provider (Inl (RequestError (lit ''prompt too long'')))"
       and m = "lit ''prompt too long''" and hs = starlette_str
       and topic = "lit ''math''" and request = "\<lparr>question = lit ''2+2?'', answer = lit ''5''\<rparr>"]
  from t [OF truthy_listed model_listed] show ?thesis
    using truthy_listed model_listed by (simp add: stub_provider_def lit_def)
qed

text \<open>
  Whatever happens, a handler either returns a body or raises an \<^verbatim>\<open>HTTPException\<close>: every
  exception of the \<^verbatim>\<open>try\<close> block is replaced by one.
\<close>

lemma generate_question_raises_http:
  "(\<exists>body. fst (generate_question st gen hs topic) = Inr body)
   \<or> (\<exists>status detail. fst (generate_question st gen hs topic) = Inl (HTTPException status detail))"
proof (cases "fst (generate_question_try st gen topic)")
  case (Inl e)
  then show ?thesis
    by (cases e; cases "generate_question_try st gen topic")
       (simp_all add: generate_question_def)
next
  case (Inr body)
  then show ?thesis
    by (cases "generate_question_try st gen topic") (simp add: generate_question_def)
qed

lemma evaluate_answer_raises_http:
  "(\<exists>body. fst (evaluate_answer st gen hs request) = Inr body)
   \<or> (\<exists>status detail. fst (evaluate_answer st gen hs request) = Inl (HTTPException status detail))"
proof (cases "fst (evaluate_answer_try st gen request)")
  case (Inl e)
  then show ?thesis
    by (cases e; cases "evaluate_answer_try st gen request")
       (simp_all add: evaluate_answer_def)
next
  case (Inr body)
  then show ?thesis
    by (cases "evaluate_answer_try st gen request") (simp add: evaluate_answer_def)
qed

lemma generate_question_except_other:
  assumes "\<forall>m. e \<noteq> RateLimitError m" and "\<forall>m. e \<noteq> RequestError m"
  shows "generate_question_except hs e = HTTPException 500 (lit ''Unexpected error: '' @ str_exn hs e)"
  using assms by (cases e) simp_all

lemma evaluate_answer_except_other:
  assumes "\<forall>m. e \<noteq> RateLimitError m" and "\<forall>m. e \<noteq> RequestError m"
  shows "evaluate_answer_except hs e = HTTPException 500 (lit ''Unexpected error: '' @ str_exn hs e)"
  using assms by (cases e) simp_all

text \<open>
  C5. A provider failure that is neither the rate-limit nor the invalid-request exception
  is answered 500 with the detail \<^verbatim>\<open>"Unexpected error: "\<close> followed by the text of the
  exception, on both endpoints; and no handler lets an exception other than an
  \<^verbatim>\<open>HTTPException\<close> out, whatever the state, the provider and the input.
\<close>

theorem other_failures_answer_500:
  "(truthy (GENAI_API_KEY st) \<and> model_name \<in> set (available_models st)
      \<and> gen model_name (generate_question_prompt topic) = Inl e
      \<and> (\<forall>m. e \<noteq> RateLimitError m) \<and> (\<forall>m. e \<noteq> RequestError m) \<longrightarrow>
        respond (fst (generate_question st gen hs topic)) =
          Response 500 (Object [lit ''detail'' \<mapsto> lit ''Unexpected error: '' @ str_exn hs e]))
   \<and> (truthy (GENAI_API_KEY st) \<and> model_name \<in> set (available_models st)
      \<and> gen model_name (evaluate_answer_prompt request) = Inl e
      \<and> (\<forall>m. e \<noteq> RateLimitError m) \<and> (\<forall>m. e \<noteq> RequestError m) \<longrightarrow>
        respond (fst (evaluate_answer st gen hs request)) =
          Response 500 (Object [lit ''detail'' \<mapsto> lit ''Unexpected error: '' @ str_exn hs e]))
   \<and> ((\<exists>body. fst (generate_question st gen hs topic) = Inr body)
      \<or> (\<exists>status detail. fst (generate_question st gen hs topic) = Inl (HTTPException status detail)))
   \<and> ((\<exists>body. fst (evaluate_answer st gen hs request) = Inr body)
      \<or> (\<exists>status detail. fst (evaluate_answer st gen hs request) = Inl (HTTPException status detail)))"
proof -
  have a: "respond (fst (generate_question st gen hs topic)) =
          Response 500 (Object [lit ''detail'' \<mapsto> lit ''Unexpected error: '' @ str_exn hs e])"
    if "truthy (GENAI_API_KEY st)" and "model_name \<in> set (available_models st)"
      and "gen model_name (generate_question_prompt topic) = Inl e"
      and "\<forall>m. e \<noteq> RateLimitError m" and "\<forall>m. e \<noteq> RequestError m"
  proof -
    note g = generate_question_listed [OF that(1) that(2)]
    note x = generate_question_except_other [OF that(4) that(5)]
    show ?thesis
      using that(3) by (simp add: g x)
  qed
  have b: "respond (fst (evaluate_answer st gen hs request)) =
          Response 500 (Object [lit ''detail'' \<mapsto> lit ''Unexpected error: '' @ str_exn hs e])"
    if "truthy (GENAI_API_KEY st)" and "model_name \<in> set (available_models st)"
      and "gen model_name (evaluate_answer_prompt request) = Inl e"
      and "\<forall>m. e \<noteq> RateLimitError m" and "\<forall>m. e \<noteq> RequestError m"
  proof -
    note g = evaluate_answer_listed [OF that(1) that(2)]
    note x = evaluate_answer_except_other [OF that(4) that(5)]
    show ?thesis
      using that(3) by (simp add: g x)
  qed
  from a b generate_question_raises_http [of st gen hs topic]
    evaluate_answer_raises_http [of st gen hs request]
  show ?thesis
    by blast
qed

text \<open>
  C5 at a concrete input: a provider whose call fails with a connection error.
\<close>

theorem other_failures_answer_500_witness:
  "respond (fst (generate_question listed_state
       (stub_provider (Inl (OtherException (lit ''Connection reset by peer''))))
       starlette_str (lit ''math''))) =
     Response 500 (Object [lit ''detail'' \<mapsto> lit ''Unexpected error: Connection reset by peer''])
   \<and> respond (fst (evaluate_answer listed_state
       (stub_provider (Inl (OtherException (lit ''Connection reset by peer''))))
       starlette_str \<lparr>question = lit ''2+2?'', answer = lit ''5''\<rparr>)) =
     Response 500 (Object [lit ''detail'' \<mapsto> lit ''Unexpected error: Connection reset by peer''])"
proof -
  note t = other_failures_answer_500
    [where st = listed_state
       and gen = "stub_provider (Inl (OtherException (lit ''Connection reset by peer'')))"
       and e = "OtherException (lit ''Connection reset by peer'')" and hs = starlette_str
       and topic = "lit ''math''" and request = "\<lparr>question = lit ''2+2?'', answer = lit ''5''\<rparr>"]
  from t show ?thesis
    using truthy_listed model_listed by (simp add: stub_provider_def lit_def)
qed

section \<open>Prompts and bodies on success\<close>

text \<open>
  C6. For every topic, \<^verbatim>\<open>"math"\<close> when the query parameter is absent, a request that
  reaches the provider makes exactly one call, for the model \<^verbatim>\<open>"models/gemini-1.5-flash"\<close>
  with the prompt \<^verbatim>\<open>"Generate a {topic} learning question."\<close>; when that call succeeds the
  response is 200 with \<^verbatim>\<open>"question"\<close> mapped to the provider text with the surrounding
  whitespace removed.
\<close>

theorem generate_question_prompt_and_body:
  assumes "truthy (GENAI_API_KEY st)"
    and "model_name \<in> set (available_models st)"
    and "topic = (case topic_param of None \<Rightarrow> lit ''math'' | Some t \<Rightarrow> t)"
  shows "snd (GET_generate_question st gen hs topic_param) =
           [(lit ''models/gemini-1.5-flash'', lit ''Generate a '' @ topic @ lit '' learning question.'')]
       \<and> (gen (lit ''models/gemini-1.5-flash'') (lit ''Generate a '' @ topic @ lit '' learning question.'')
             = Inr reply \<longrightarrow>
           fst (GET_generate_question st gen hs topic_param) =
             Response 200 (Object [lit ''question'' \<mapsto> strip reply])
           \<and> (\<exists>pre suf. reply = pre @ strip reply @ suf
                \<and> (\<forall>c \<in> set pre. isspace c) \<and> (\<forall>c \<in> set suf. isspace c))
           \<and> (strip reply = [] \<or> (\<not> isspace (hd (strip reply)) \<and> \<not> isspace (last (strip reply)))))"
proof -
  note g = generate_question_listed [OF assms(1) assms(2), of gen hs topic]
  have calls: "snd (GET_generate_question st gen hs topic_param) =
      [(model_name, generate_question_prompt topic)]"
    by (simp add: GET_generate_question_def Let_def assms(3) [symmetric] g split: sum.splits)
  have body: "fst (GET_generate_question st gen hs topic_param) =
      Response 200 (Object [lit ''question'' \<mapsto> strip reply])"
    if "gen model_name (generate_question_prompt topic) = Inr reply"
    using that by (simp add: GET_generate_question_def Let_def assms(3) [symmetric] g)
  have trimmed: "strip reply = [] \<or> (\<not> isspace (hd (strip reply)) \<and> \<not> isspace (last (strip reply)))"
    using strip_hd [of reply] strip_last [of reply] by blast
  from calls body trimmed strip_surrounding [of reply] show ?thesis
    unfolding model_name_def generate_question_prompt_def by blast
qed

lemma strip_identity_example: "strip (lit ''What is x in 2x=10?'') = lit ''What is x in 2x=10?''"
  by (simp add: strip_def isspace_def lit_def)

text \<open>
  C6 at concrete inputs: the topic \<^verbatim>\<open>"algebra"\<close> with a provider returning
  \<^verbatim>\<open>"What is x in 2x=10?"\<close>, and an absent topic.
\<close>

theorem generate_question_prompt_and_body_witness:
  "truthy (GENAI_API_KEY listed_state)
   \<and> model_name \<in> set (available_models listed_state)
   \<and> GET_generate_question listed_state (stub_provider (Inr (lit ''What is x in 2x=10?'')))
        starlette_str (Some (lit ''algebra'')) =
       (Response 200 (Object [lit ''question'' \<mapsto> lit ''What is x in 2x=10?'']),
        [(lit ''models/gemini-1.5-flash'', lit ''Generate a algebra learning question.'')])
   \<and> snd (GET_generate_question listed_state (stub_provider (Inr (lit ''What is x in 2x=10?'')))
        starlette_str None) =
       [(lit ''models/gemini-1.5-flash'', lit ''Generate a math learning question.'')]"
proof -
  note a = generate_question_prompt_and_body
    [where st = listed_state and gen = "stub_provider (Inr (lit ''What is x in 2x=10?''))"
       and hs = starlette_str and topic_param = "Some (lit ''algebra'')"
       and topic = "lit ''algebra''" and reply = "lit ''What is x in 2x=10?''"]
  note b = generate_question_prompt_and_body
    [where st = listed_state and gen = "stub_provider (Inr (lit ''What is x in 2x=10?''))"
       and hs = starlette_str and topic_param = None
       and topic = "lit ''math''" and reply = "lit ''What is x in 2x=10?''"]
  have s: "lit ''Generate a '' @ lit ''algebra'' @ lit '' learning question.'' =
      lit ''Generate a algebra learning question.''"
    "lit ''Generate a '' @ lit ''math'' @ lit '' learning question.'' =
      lit ''Generate a math learning question.''"
    by (simp_all add: lit_def)
  have p: "stub_provider (Inr (lit ''What is x in 2x=10?'')) m q = Inr (lit ''What is x in 2x=10?'')" for m q
    by (simp add: stub_provider_def)
  from a [OF truthy_listed model_listed] b [OF truthy_listed model_listed]
  show ?thesis
    using truthy_listed model_listed
    by (simp add: p s strip_identity_example prod_eq_iff)
qed

text \<open>
  C7. For every request with a question and an answer, a call of \<^verbatim>\<open>evaluate_answer\<close> that
  reaches the provider makes exactly one call, whose prompt has three lines: the question
  after \<^verbatim>\<open>"Here is a learning question: "\<close>, the answer after \<^verbatim>\<open>"The user's answer: "\<close>, and
  the instruction to evaluate the correctness and, if incorrect, to provide a helpful hint
  or explanation. When that call succeeds the response is 200 with \<^verbatim>\<open>"feedback"\<close> mapped to
  the provider text with the surrounding whitespace removed.
\<close>

theorem evaluate_answer_prompt_and_body:
  assumes "truthy (GENAI_API_KEY st)"
    and "model_name \<in> set (available_models st)"
    and "prompt = lit ''Here is a learning question: '' @ question request @ [10] @
          lit ''The user's answer: '' @ answer request @ [10] @
          lit ''Evaluate the correctness of this answer. If incorrect, provide a helpful hint or explanation.''"
  shows "snd (evaluate_answer st gen hs request) = [(lit ''models/gemini-1.5-flash'', prompt)]
       \<and> (gen (lit ''models/gemini-1.5-flash'') prompt = Inr reply \<longrightarrow>
           respond (fst (evaluate_answer st gen hs request)) =
             Response 200 (Object [lit ''feedback'' \<mapsto> strip reply])
           \<and> (\<exists>pre suf. reply = pre @ strip reply @ suf
                \<and> (\<forall>c \<in> set pre. isspace c) \<and> (\<forall>c \<in> set suf. isspace c))
           \<and> (strip reply = [] \<or> (\<not> isspace (hd (strip reply)) \<and> \<not> isspace (last (strip reply)))))"
proof -
  note e = evaluate_answer_listed [OF assms(1) assms(2), of gen hs request]
  have pr: "evaluate_answer_prompt request = prompt"
    by (simp add: evaluate_answer_prompt_def assms(3))
  have calls: "snd (evaluate_answer st gen hs request) = [(model_name, prompt)]"
    by (simp add: e pr split: sum.splits)
  have body: "respond (fst (evaluate_answer st gen hs request)) =
      Response 200 (Object [lit ''feedback'' \<mapsto> strip reply])"
    if "gen model_name prompt = Inr reply"
    using that by (simp add: e pr)
  have trimmed: "strip reply = [] \<or> (\<not> isspace (hd (strip reply)) \<and> \<not> isspace (last (strip reply)))"
    using strip_hd [of reply] strip_last [of reply] by blast
  from calls body trimmed strip_surrounding [of reply] show ?thesis
    unfolding model_name_def by blast
qed

lemma strip_feedback_example: "strip (lit ''Incorrect; 2+2=4.'') = lit ''Incorrect; 2+2=4.''"
  by (simp add: strip_def isspace_def lit_def)

text \<open>
  C7 at a concrete input: the question \<^verbatim>\<open>"2+2?"\<close>, the answer \<^verbatim>\<open>"5"\<close> and a provider
  returning \<^verbatim>\<open>"Incorrect; 2+2=4."\<close>.
\<close>

theorem evaluate_answer_prompt_and_body_witness:
  "truthy (GENAI_API_KEY listed_state)
   \<and> model_name \<in> set (available_models listed_state)
   \<and> snd (evaluate_answer listed_state (stub_provider (Inr (lit ''Incorrect; 2+2=4.'')))
        starlette_str \<lparr>question = lit ''2+2?'', answer = lit ''5''\<rparr>) =
       [(lit ''models/gemini-1.5-flash'',
         lit ''Here is a learning question: 2+2?'' @ [10] @ lit ''The user's answer: 5'' @ [10] @
         lit ''Evaluate the correctness of this answer. If incorrect, provide a helpful hint or explanation.'')]
   \<and> respond (fst (evaluate_answer listed_state (stub_provider (Inr (lit ''Incorrect; 2+2=4.'')))
        starlette_str \<lparr>question = lit ''2+2?'', answer = lit ''5''\<rparr>)) =
       Response 200 (Object [lit ''feedback'' \<mapsto> lit ''Incorrect; 2+2=4.''])"
proof -
  note a = evaluate_answer_prompt_and_body
    [where st = listed_state and gen = "stub_provider (Inr (lit ''Incorrect; 2+2=4.''))"
       and hs = starlette_str and request = "\<lparr>question = lit ''2+2?'', answer = lit ''5''\<rparr>"
       and reply = "lit ''Incorrect; 2+2=4.''", OF truthy_listed model_listed refl]
  have p: "stub_provider (Inr (lit ''Incorrect; 2+2=4.'')) m q = Inr (lit ''Incorrect; 2+2=4.'')" for m q
    by (simp add: stub_provider_def)
  have s: "lit ''Here is a learning question: '' @ lit ''2+2?'' @ r = lit ''Here is a learning question: 2+2?'' @ r"
    "lit ''The user's answer: '' @ lit ''5'' @ r = lit ''The user's answer: 5'' @ r" for r
    by (simp_all add: lit_def)
  from a show ?thesis
    using truthy_listed model_listed by (simp add: p s strip_feedback_example)
qed

section \<open>Request validation\<close>

lemma AnswerRequest_validate_missing:
  assumes "body (lit ''question'') = None \<or> body (lit ''answer'') = None"
  shows "\<exists>errors. AnswerRequest_validate body = Inl errors \<and> errors \<noteq> []"
  using assms
  by (auto simp add: AnswerRequest_validate_def split: option.splits json.splits)

text \<open>
  C8. A \<^verbatim>\<open>POST /evaluate_answer\<close> whose body lacks the question field or the answer field
  is answered 422 with a non-empty list of validation errors, and the provider is not
  called.
\<close>

theorem missing_field_answers_422:
  assumes "body (lit ''question'') = None \<or> body (lit ''answer'') = None"
  shows "\<exists>errors. errors \<noteq> [] \<and>
           POST_evaluate_answer st gen hs body = (Response 422 (ValidationErrors errors), [])"
proof -
  from AnswerRequest_validate_missing [OF assms]
  obtain errors where "AnswerRequest_validate body = Inl errors" and "errors \<noteq> []"
    by blast
  then show ?thesis
    by (simp add: POST_evaluate_answer_def)
qed

text \<open>
  C8 at a concrete input: a body with a question and no answer.
\<close>

theorem missing_field_answers_422_witness:
  "[lit ''question'' \<mapsto> JString (lit ''2+2?'')] (lit ''answer'') = None
   \<and> POST_evaluate_answer listed_state (stub_provider (Inr (lit ''Correct.''))) starlette_str
        [lit ''question'' \<mapsto> JString (lit ''2+2?'')] =
      (Response 422 (ValidationErrors [lit ''answer'']), [])"
proof -
  have h: "[lit ''question'' \<mapsto> JString (lit ''2+2?'')] (lit ''answer'') = None"
    by (simp add: lit_def)
  note t = missing_field_answers_422
    [where body = "[lit ''question'' \<mapsto> JString (lit ''2+2?'')]" and st = listed_state
       and gen = "stub_provider (Inr (lit ''Correct.''))" and hs = starlette_str]
  have "AnswerRequest_validate [lit ''question'' \<mapsto> JString (lit ''2+2?'')] = Inl [lit ''answer'']"
    by (simp add: AnswerRequest_validate_def lit_def)
  with t [OF disjI2 [OF h]] h show ?thesis
    by (simp add: POST_evaluate_answer_def)
qed

section \<open>The credential\<close>

text \<open>
  C9. If \<^verbatim>\<open>GENAI_API_KEY\<close> is absent or empty, the import of the module raises a
  \<^verbatim>\<open>ValueError\<close> and there is no module state to serve a request from; if it is a
  non-empty string, start-up yields the module state, with the model list empty when
  listing the models fails.
\<close>

theorem startup_requires_credential:
  "((key = None \<or> key = Some []) \<longrightarrow>
      startup key list_models = Inl (ValueError ([10060] @
        lit '' Google Gemini API key is missing! Set GENAI_API_KEY in .env or environment variables.'')))
   \<and> ((\<exists>k. key = Some k \<and> k \<noteq> []) \<longrightarrow>
      startup key list_models =
        Inr \<lparr>GENAI_API_KEY = key,
             available_models = (case list_models of Inr names \<Rightarrow> names | Inl e \<Rightarrow> [])\<rparr>)"
  by (auto simp add: startup_def)

text \<open>
  C9 at concrete inputs: no key, an empty key, and the key \<^verbatim>\<open>"key"\<close> with a model list
  and with a failed listing.
\<close>

theorem startup_requires_credential_witness:
  "startup None (Inr [model_name]) = Inl (ValueError ([10060] @
        lit '' Google Gemini API key is missing! Set GENAI_API_KEY in .env or environment variables.''))
   \<and> startup (Some []) (Inr [model_name]) = Inl (ValueError ([10060] @
        lit '' Google Gemini API key is missing! Set GENAI_API_KEY in .env or environment variables.''))
   \<and> startup (Some (lit ''key'')) (Inr [model_name]) = Inr listed_state
   \<and> startup (Some (lit ''key'')) (Inl (OtherException (lit ''network unreachable''))) = Inr unlisted_state"
proof -
  have ne: "lit ''key'' \<noteq> []"
    by (simp add: lit_def)
  from startup_requires_credential [of None "Inr [model_name]"]
    startup_requires_credential [of "Some []" "Inr [model_name]"]
    startup_requires_credential [of "Some (lit ''key'')" "Inr [model_name]"]
    startup_requires_credential [of "Some (lit ''key'')" "Inl (OtherException (lit ''network unreachable''))"]
    ne
  show ?thesis
    by (simp add: listed_state_def unlisted_state_def)
qed

lemma startup_truthy:
  assumes "startup key list_models = Inr st"
  shows "truthy (GENAI_API_KEY st)"
  using assms by (auto simp add: startup_def split: if_splits)

lemma key_missing_not_from_except:
  "generate_question_except hs e \<noteq> HTTPException 500 (lit ''Google Gemini API key is missing!'')"
  "evaluate_answer_except hs e \<noteq> HTTPException 500 (lit ''Google Gemini API key is missing!'')"
  by (cases e; simp add: lit_def)+

text \<open>
  C10. In every state that start-up produces, the credential is true, so each handler
  skips its own credential check and runs its \<^verbatim>\<open>try\<close> statement; neither handler raises the
  \<^verbatim>\<open>HTTPException\<close> 500 \<^verbatim>\<open>"Google Gemini API key is missing!"\<close>.
\<close>

theorem credential_check_unreachable:
  assumes "startup key list_models = Inr st"
  shows "truthy (GENAI_API_KEY st)
       \<and> generate_question st gen hs topic =
           (case generate_question_try st gen topic of
              (Inl e, calls) \<Rightarrow> (Inl (generate_question_except hs e), calls)
            | (Inr body, calls) \<Rightarrow> (Inr body, calls))
       \<and> evaluate_answer st gen hs request =
           (case evaluate_answer_try st gen request of
              (Inl e, calls) \<Rightarrow> (Inl (evaluate_answer_except hs e), calls)
            | (Inr body, calls) \<Rightarrow> (Inr body, calls))
       \<and> fst (generate_question st gen hs topic) \<noteq>
           Inl (HTTPException 500 (lit ''Google Gemini API key is missing!''))
       \<and> fst (evaluate_answer st gen hs request) \<noteq>
           Inl (HTTPException 500 (lit ''Google Gemini API key is missing!''))"
proof -
  have t: "truthy (GENAI_API_KEY st)"
    using assms by (rule startup_truthy)
  have g: "generate_question st gen hs topic =
           (case generate_question_try st gen topic of
              (Inl e, calls) \<Rightarrow> (Inl (generate_question_except hs e), calls)
            | (Inr body, calls) \<Rightarrow> (Inr body, calls))"
    using t by (simp add: generate_question_def)
  have e: "evaluate_answer st gen hs request =
           (case evaluate_answer_try st gen request of
              (Inl e, calls) \<Rightarrow> (Inl (evaluate_answer_except hs e), calls)
            | (Inr body, calls) \<Rightarrow> (Inr body, calls))"
    using t by (simp add: evaluate_answer_def)
  have gn: "fst (generate_question st gen hs topic) \<noteq>
           Inl (HTTPException 500 (lit ''Google Gemini API key is missing!''))"
    unfolding g using key_missing_not_from_except(1)
    by (simp split: prod.splits sum.splits)
  have en: "fst (evaluate_answer st gen hs request) \<noteq>
           Inl (HTTPException 500 (lit ''Google Gemini API key is missing!''))"
    unfolding e using key_missing_not_from_except(2)
    by (simp split: prod.splits sum.splits)
  from t g e gn en show ?thesis
    by blast
qed

text \<open>
  C10 at a concrete input: the state that start-up yields for the key \<^verbatim>\<open>"key"\<close> and a
  model list holding the model.
\<close>

theorem credential_check_unreachable_witness:
  "startup (Some (lit ''key'')) (Inr [model_name]) = Inr listed_state
   \<and> truthy (GENAI_API_KEY listed_state)
   \<and> fst (generate_question listed_state (stub_provider (Inr (lit ''What is 2+2?''))) starlette_str
        (lit ''math'')) \<noteq> Inl (HTTPException 500 (lit ''Google Gemini API key is missing!''))
   \<and> fst (evaluate_answer listed_state (stub_provider (Inr (lit ''Correct.''))) starlette_str
        \<lparr>question = lit ''2+2?'', answer = lit ''4''\<rparr>) \<noteq>
        Inl (HTTPException 500 (lit ''Google Gemini API key is missing!''))"
proof -
  have s: "startup (Some (lit ''key'')) (Inr [model_name]) = Inr listed_state"
    by (simp add: startup_def listed_state_def lit_def)
  note a = credential_check_unreachable [OF s, of "stub_provider (Inr (lit ''What is 2+2?''))"
    starlette_str "lit ''math''" "\<lparr>question = lit ''2+2?'', answer = lit ''4''\<rparr>"]
  note b = credential_check_unreachable [OF s, of "stub_provider (Inr (lit ''Correct.''))"
    starlette_str "lit ''math''" "\<lparr>question = lit ''2+2?'', answer = lit ''4''\<rparr>"]
  from a b s show ?thesis
    by blast
qed

end
